theory Spec2Isabelle
  imports Main
begin

section \<open>The CDN construct of the static website (cdn.ts)\<close>

text \<open>
  The constructor of \<open>CdnConstruct\<close> takes a properties object and creates five
  resources inside its own scope, in this order: an origin access identity, an IAM policy
  document, a bucket policy, a public access block and a CloudFront distribution. It has
  no loop and no branch other than four conditional expressions. The embedding keeps the
  configuration objects as records, the scope as the list of the children created so far,
  and the one way the body can throw as an error value.
\<close>

subsection \<open>Borrowed handles and the properties object\<close>

text \<open>
  Of the certificate and of the bucket only the attributes the constructor reads are kept.
  The attribute \<open>id\<close> is spelled \<open>certificate_id\<close> and \<open>bucket_id\<close> here.
\<close>

record AcmCertificate =
  certificate_id :: string

record S3Bucket =
  bucket_arn :: string
  bucket_id :: string
  bucketRegionalDomainName :: string

text \<open>
  \<open>ICdnConstructProps\<close>, lines 23 to 30. The interface declares all six members as
  required. The types are erased when the program runs, so a caller that bypasses them can
  still pass an object whose \<open>acmCertificate\<close> is \<open>undefined\<close>: that value is \<open>None\<close>
  here, and \<open>ICdnConstructProps_conforms\<close> says that the member is present as the
  interface demands. The other members are always present in the model.
\<close>

record ICdnConstructProps =
  acmCertificate :: "AcmCertificate option"
  domainNames :: "string list"
  enableHttps :: bool
  hasBuildCommand :: bool
  resourceNamesPrefix :: string
  websiteS3Bucket :: S3Bucket

definition ICdnConstructProps_conforms :: "ICdnConstructProps \<Rightarrow> bool" where
  "ICdnConstructProps_conforms props = (acmCertificate props \<noteq> None)"

subsection \<open>Tokens\<close>

text \<open>
  An attribute read from a resource created by the constructor (\<open>iamArn\<close>,
  \<open>cloudfrontAccessIdentityPath\<close>, \<open>json\<close>) is a placeholder for a value known only
  after deployment. It is kept symbolic: the construct id of the resource and the name of
  the attribute. \<open>Token.asString\<close> is applied to values that are strings already and
  hands them back unchanged.
\<close>

datatype token = Attribute string string

definition Token_asString :: "string \<Rightarrow> string" where
  "Token_asString s = s"

subsection \<open>Configuration objects\<close>

record CloudfrontOriginAccessIdentityConfig =
  comment :: string

record DataAwsIamPolicyDocumentStatementPrincipals =
  principal_type :: string
  identifiers :: "token list"

record DataAwsIamPolicyDocumentStatement =
  effect :: string
  actions :: "string list"
  resources :: "string list"
  principals :: "DataAwsIamPolicyDocumentStatementPrincipals list"

record DataAwsIamPolicyDocumentConfig =
  version :: string
  statement :: "DataAwsIamPolicyDocumentStatement list"

record S3BucketPolicyConfig =
  policy_bucket :: string
  policy :: token

record S3BucketPublicAccessBlockConfig =
  access_block_bucket :: string
  blockPublicAcls :: bool
  blockPublicPolicy :: bool
  ignorePublicAcls :: bool
  restrictPublicBuckets :: bool

record CloudfrontDistributionOriginS3OriginConfig =
  originAccessIdentity :: token

record CloudfrontDistributionOrigin =
  domainName :: string
  originId :: string
  s3OriginConfig :: "CloudfrontDistributionOriginS3OriginConfig list"

record CloudfrontDistributionCustomErrorResponse =
  errorCode :: int
  responseCode :: int
  responsePagePath :: string

record CloudfrontDistributionForwardedValuesCookies =
  forward :: string

record CloudfrontDistributionForwardedValues =
  queryString :: bool
  cookies :: "CloudfrontDistributionForwardedValuesCookies list"

record CloudfrontDistributionDefaultCacheBehavior =
  targetOriginId :: string
  allowedMethods :: "string list"
  cachedMethods :: "string list"
  viewerProtocolPolicy :: string
  forwardedValues :: "CloudfrontDistributionForwardedValues list"

record CloudfrontDistributionGeoRestriction =
  restrictionType :: string

record CloudfrontDistributionRestrictions =
  geoRestriction :: "CloudfrontDistributionGeoRestriction list"

text \<open>
  The viewer certificate is one of two object literals with different members; a member
  that a literal does not mention is \<open>None\<close>.
\<close>

record CloudfrontDistributionViewerCertificate =
  acmCertificateArn :: "string option"
  sslSupportMethod :: "string option"
  cloudfrontDefaultCertificate :: "bool option"

text \<open>\<open>aliases\<close> is \<open>undefined\<close> (\<open>None\<close>) or a list, which may be empty.\<close>

record CloudfrontDistributionConfig =
  enabled :: bool
  defaultRootObject :: string
  aliases :: "string list option"
  origin :: "CloudfrontDistributionOrigin list"
  customErrorResponse :: "CloudfrontDistributionCustomErrorResponse list"
  defaultCacheBehavior :: "CloudfrontDistributionDefaultCacheBehavior list"
  restrictions :: "CloudfrontDistributionRestrictions list"
  viewerCertificate :: "CloudfrontDistributionViewerCertificate list"
  dependsOn :: "S3Bucket list"

subsection \<open>Resources and the scope\<close>

datatype resource =
    CloudfrontOriginAccessIdentity CloudfrontOriginAccessIdentityConfig
  | DataAwsIamPolicyDocument DataAwsIamPolicyDocumentConfig
  | S3BucketPolicy S3BucketPolicyConfig
  | S3BucketPublicAccessBlock S3BucketPublicAccessBlockConfig
  | CloudfrontDistribution CloudfrontDistributionConfig

text \<open>
  \<open>new R(this, id, config)\<close> creates the resource object and registers it under
  \<open>id\<close> as the next child of \<open>this\<close>. A resource object is the pair of its construct
  id and its resource; the scope is the list of its children, oldest first.
\<close>

type_synonym node = "string \<times> resource"

definition new :: "node list \<Rightarrow> string \<Rightarrow> resource \<Rightarrow> node \<times> node list" where
  "new this i r = ((i, r), this @ [(i, r)])"

definition iamArn :: "node \<Rightarrow> token" where
  "iamArn r = Attribute (fst r) ''iamArn''"

definition cloudfrontAccessIdentityPath :: "node \<Rightarrow> token" where
  "cloudfrontAccessIdentityPath r = Attribute (fst r) ''cloudfrontAccessIdentityPath''"

definition json :: "node \<Rightarrow> token" where
  "json r = Attribute (fst r) ''json''"

text \<open>
  The access identity as the constructor creates it (lines 54 to 56): the first child of
  the scope. The abbreviation is used in the statements below.
\<close>

abbreviation accessIdentity :: node where
  "accessIdentity \<equiv>
     (''cloudfront_OAI'', CloudfrontOriginAccessIdentity \<lparr> comment = ''bifrost_summary'' \<rparr>)"

subsection \<open>The constructor\<close>

text \<open>
  Reading \<open>props.acmCertificate.id\<close> when \<open>acmCertificate\<close> is \<open>undefined\<close> throws a
  \<open>TypeError\<close>. Nothing else in the body can throw on the modelled inputs.
\<close>

datatype error = TypeError

text \<open>Lines 58 to 78: the configuration of the policy document.\<close>

definition buildRolePolicyDocument ::
  "ICdnConstructProps \<Rightarrow> node \<Rightarrow> DataAwsIamPolicyDocumentConfig" where
  "buildRolePolicyDocument props cloudfrontOriginAccessIdentity =
     \<lparr> version = ''2012-10-17'',
       statement = [
         \<lparr> effect = ''Allow'',
           actions = [
             ''s3:GetObject'',
             ''s3:GetObjectVersion'',
             ''s3:ListBucket'',
             ''s3:GetBucketAcl'',
             ''s3:GetBucketLocation''],
           resources = [
             Token_asString (bucket_arn (websiteS3Bucket props)),
             Token_asString (bucket_arn (websiteS3Bucket props)) @ ''/*''],
           principals = [
             \<lparr> principal_type = ''AWS'',
               identifiers = [iamArn cloudfrontOriginAccessIdentity] \<rparr>] \<rparr>] \<rparr>"

text \<open>Lines 85 to 91: the configuration of the public access block.\<close>

definition publicAccessBlock :: "ICdnConstructProps \<Rightarrow> S3BucketPublicAccessBlockConfig" where
  "publicAccessBlock props =
     \<lparr> access_block_bucket = Token_asString (bucket_id (websiteS3Bucket props)),
       blockPublicAcls = True,
       blockPublicPolicy = True,
       ignorePublicAcls = True,
       restrictPublicBuckets = False \<rparr>"

text \<open>
  Lines 133 to 138: the viewer certificate. The first literal reads the certificate's
  \<open>id\<close> and is the only expression of the body that can throw.
\<close>

definition viewerCertificateBlock ::
  "ICdnConstructProps \<Rightarrow> error + CloudfrontDistributionViewerCertificate" where
  "viewerCertificateBlock props =
     (if enableHttps props then
        (case acmCertificate props of
           None \<Rightarrow> Inl TypeError
         | Some certificate \<Rightarrow>
             Inr \<lparr> acmCertificateArn = Some (Token_asString (certificate_id certificate)),
                   sslSupportMethod = Some ''sni-only'',
                   cloudfrontDefaultCertificate = None \<rparr>)
      else
        Inr \<lparr> acmCertificateArn = None,
              sslSupportMethod = None,
              cloudfrontDefaultCertificate = Some True \<rparr>)"

text \<open>
  Lines 93 to 142: the object literal passed to \<open>new CloudfrontDistribution\<close>. Its
  members are evaluated before the resource is created, so a throw leaves the
  distribution unregistered.
\<close>

definition distributionConfig ::
  "ICdnConstructProps \<Rightarrow> string \<Rightarrow> node \<Rightarrow> error + CloudfrontDistributionConfig" where
  "distributionConfig props websiteOriginID cloudfrontOriginAccessIdentity =
     (case viewerCertificateBlock props of
        Inl e \<Rightarrow> Inl e
      | Inr certificateBlock \<Rightarrow>
          Inr \<lparr> enabled = True,
                defaultRootObject = ''index.html'',
                aliases = (if enableHttps props then Some (domainNames props) else None),
                origin = [
                  \<lparr> domainName = bucketRegionalDomainName (websiteS3Bucket props),
                    originId = websiteOriginID,
                    s3OriginConfig = [
                      \<lparr> originAccessIdentity =
                          cloudfrontAccessIdentityPath cloudfrontOriginAccessIdentity \<rparr>] \<rparr>],
                customErrorResponse = [
                  \<lparr> errorCode = 403,
                    responseCode = (if hasBuildCommand props then 200 else 403),
                    responsePagePath =
                      (if hasBuildCommand props then ''/index.html'' else ''/error.html'') \<rparr>],
                defaultCacheBehavior = [
                  \<lparr> targetOriginId = websiteOriginID,
                    allowedMethods =
                      [''DELETE'', ''GET'', ''HEAD'', ''OPTIONS'', ''PATCH'', ''POST'', ''PUT''],
                    cachedMethods = [''GET'', ''HEAD''],
                    viewerProtocolPolicy = ''redirect-to-https'',
                    forwardedValues = [
                      \<lparr> queryString = False,
                        cookies = [\<lparr> forward = ''none'' \<rparr>] \<rparr>] \<rparr>],
                restrictions = [
                  \<lparr> geoRestriction = [\<lparr> restrictionType = ''none'' \<rparr>] \<rparr>],
                viewerCertificate = [certificateBlock],
                dependsOn = [websiteS3Bucket props] \<rparr>)"

text \<open>
  The construct after its constructor has returned: the children of its scope and the
  member \<open>cloudfrontDistribution\<close>, kept by its configuration.
\<close>

record CdnConstruct =
  children :: "node list"
  cloudfrontDistribution :: CloudfrontDistributionConfig

text \<open>
  Lines 49 to 145. A throw carries the children registered before it. The parent scope
  and the construct's own id (\<open>super(scope, id)\<close>) are left out: the body never reads them.
\<close>

definition CdnConstruct_constructor ::
  "ICdnConstructProps \<Rightarrow> (error \<times> node list) + CdnConstruct" where
  "CdnConstruct_constructor props =
     (let websiteOriginID = resourceNamesPrefix props;
          (cloudfrontOriginAccessIdentity, this1) =
             new [] ''cloudfront_OAI''
               (CloudfrontOriginAccessIdentity \<lparr> comment = ''bifrost_summary'' \<rparr>);
          (rolePolicyDocument, this2) =
             new this1 ''cloudfront_OAI_role_policy_document''
               (DataAwsIamPolicyDocument
                  (buildRolePolicyDocument props cloudfrontOriginAccessIdentity));
          (bucketPolicy, this3) =
             new this2 ''cloudfront_s3_bucket_policy''
               (S3BucketPolicy
                  \<lparr> policy_bucket = Token_asString (bucket_id (websiteS3Bucket props)),
                    policy = json rolePolicyDocument \<rparr>);
          (accessBlock, this4) =
             new this3 ''cloudfront_s3_bucket_public_access_block''
               (S3BucketPublicAccessBlock (publicAccessBlock props))
      in case distributionConfig props websiteOriginID cloudfrontOriginAccessIdentity of
           Inl e \<Rightarrow> Inl (e, this4)
         | Inr config \<Rightarrow>
             (let (distribution, this5) =
                    new this4 ''cloudfront_distribution'' (CloudfrontDistribution config)
              in Inr \<lparr> children = this5, cloudfrontDistribution = config \<rparr>))"

subsection \<open>Reading a result\<close>

text \<open>The resources registered in the scope, whether the constructor returned or threw.\<close>

fun emitted :: "(error \<times> node list) + CdnConstruct \<Rightarrow> node list" where
  "emitted (Inl (e, this)) = this"
| "emitted (Inr construct) = children construct"

fun policyDocuments :: "node list \<Rightarrow> DataAwsIamPolicyDocumentConfig list" where
  "policyDocuments [] = []"
| "policyDocuments ((i, DataAwsIamPolicyDocument d) # ns) = d # policyDocuments ns"
| "policyDocuments (n # ns) = policyDocuments ns"

fun accessBlocks :: "node list \<Rightarrow> S3BucketPublicAccessBlockConfig list" where
  "accessBlocks [] = []"
| "accessBlocks ((i, S3BucketPublicAccessBlock b) # ns) = b # accessBlocks ns"
| "accessBlocks (n # ns) = accessBlocks ns"

fun accessIdentities :: "node list \<Rightarrow> node list" where
  "accessIdentities [] = []"
| "accessIdentities ((i, CloudfrontOriginAccessIdentity c) # ns) =
     (i, CloudfrontOriginAccessIdentity c) # accessIdentities ns"
| "accessIdentities (n # ns) = accessIdentities ns"

fun distributions :: "node list \<Rightarrow> CloudfrontDistributionConfig list" where
  "distributions [] = []"
| "distributions ((i, CloudfrontDistribution d) # ns) = d # distributions ns"
| "distributions (n # ns) = distributions ns"

section \<open>Properties\<close>

subsection \<open>What the constructor returns\<close>

lemma viewerCertificateBlock_present:
  "acmCertificate props = Some certificate \<Longrightarrow>
   viewerCertificateBlock props =
     Inr (if enableHttps props
          then \<lparr> acmCertificateArn = Some (certificate_id certificate),
                 sslSupportMethod = Some ''sni-only'',
                 cloudfrontDefaultCertificate = None \<rparr>
          else \<lparr> acmCertificateArn = None,
                 sslSupportMethod = None,
                 cloudfrontDefaultCertificate = Some True \<rparr>)"
  by (simp add: viewerCertificateBlock_def Token_asString_def)

lemma viewerCertificateBlock_disabled:
  "\<not> enableHttps props \<Longrightarrow>
   viewerCertificateBlock props =
     Inr \<lparr> acmCertificateArn = None,
           sslSupportMethod = None,
           cloudfrontDefaultCertificate = Some True \<rparr>"
  by (simp add: viewerCertificateBlock_def)

lemma viewerCertificateBlock_missing:
  "enableHttps props \<Longrightarrow> acmCertificate props = None \<Longrightarrow>
   viewerCertificateBlock props = Inl TypeError"
  by (simp add: viewerCertificateBlock_def)

lemma distributionConfig_returns:
  "viewerCertificateBlock props = Inr block \<Longrightarrow>
   distributionConfig props websiteOriginID identity =
     Inr \<lparr> enabled = True,
           defaultRootObject = ''index.html'',
           aliases = (if enableHttps props then Some (domainNames props) else None),
           origin = [
             \<lparr> domainName = bucketRegionalDomainName (websiteS3Bucket props),
               originId = websiteOriginID,
               s3OriginConfig = [
                 \<lparr> originAccessIdentity = cloudfrontAccessIdentityPath identity \<rparr>] \<rparr>],
           customErrorResponse = [
             \<lparr> errorCode = 403,
               responseCode = (if hasBuildCommand props then 200 else 403),
               responsePagePath =
                 (if hasBuildCommand props then ''/index.html'' else ''/error.html'') \<rparr>],
           defaultCacheBehavior = [
             \<lparr> targetOriginId = websiteOriginID,
               allowedMethods =
                 [''DELETE'', ''GET'', ''HEAD'', ''OPTIONS'', ''PATCH'', ''POST'', ''PUT''],
               cachedMethods = [''GET'', ''HEAD''],
               viewerProtocolPolicy = ''redirect-to-https'',
               forwardedValues = [
                 \<lparr> queryString = False,
                   cookies = [\<lparr> forward = ''none'' \<rparr>] \<rparr>] \<rparr>],
           restrictions = [
             \<lparr> geoRestriction = [\<lparr> restrictionType = ''none'' \<rparr>] \<rparr>],
           viewerCertificate = [block],
           dependsOn = [websiteS3Bucket props] \<rparr>"
  by (simp add: distributionConfig_def)

lemma distributionConfig_throws:
  "viewerCertificateBlock props = Inl e \<Longrightarrow>
   distributionConfig props websiteOriginID identity = Inl e"
  by (simp add: distributionConfig_def)

lemma constructor_returns:
  "distributionConfig props (resourceNamesPrefix props) accessIdentity = Inr config \<Longrightarrow>
   CdnConstruct_constructor props =
     Inr \<lparr> children =
             [accessIdentity,
              (''cloudfront_OAI_role_policy_document'',
               DataAwsIamPolicyDocument (buildRolePolicyDocument props accessIdentity)),
              (''cloudfront_s3_bucket_policy'',
               S3BucketPolicy
                 \<lparr> policy_bucket = bucket_id (websiteS3Bucket props),
                   policy = Attribute ''cloudfront_OAI_role_policy_document'' ''json'' \<rparr>),
              (''cloudfront_s3_bucket_public_access_block'',
               S3BucketPublicAccessBlock (publicAccessBlock props)),
              (''cloudfront_distribution'', CloudfrontDistribution config)],
           cloudfrontDistribution = config \<rparr>"
  by (simp add: CdnConstruct_constructor_def new_def json_def Token_asString_def)

lemma constructor_throws:
  "distributionConfig props (resourceNamesPrefix props) accessIdentity = Inl e \<Longrightarrow>
   CdnConstruct_constructor props =
     Inl (e,
          [accessIdentity,
           (''cloudfront_OAI_role_policy_document'',
            DataAwsIamPolicyDocument (buildRolePolicyDocument props accessIdentity)),
           (''cloudfront_s3_bucket_policy'',
            S3BucketPolicy
              \<lparr> policy_bucket = bucket_id (websiteS3Bucket props),
                policy = Attribute ''cloudfront_OAI_role_policy_document'' ''json'' \<rparr>),
           (''cloudfront_s3_bucket_public_access_block'',
            S3BucketPublicAccessBlock (publicAccessBlock props))])"
  by (simp add: CdnConstruct_constructor_def new_def json_def Token_asString_def)

text \<open>
  The first four children do not depend on whether the distribution's configuration
  could be evaluated.
\<close>

lemma emitted_policyDocuments:
  "policyDocuments (emitted (CdnConstruct_constructor props)) =
     [buildRolePolicyDocument props accessIdentity]"
  by (cases "distributionConfig props (resourceNamesPrefix props) accessIdentity")
     (simp_all add: constructor_returns constructor_throws)

lemma emitted_accessBlocks:
  "accessBlocks (emitted (CdnConstruct_constructor props)) = [publicAccessBlock props]"
  by (cases "distributionConfig props (resourceNamesPrefix props) accessIdentity")
     (simp_all add: constructor_returns constructor_throws)

lemma emitted_accessIdentities:
  "accessIdentities (emitted (CdnConstruct_constructor props)) = [accessIdentity]"
  by (cases "distributionConfig props (resourceNamesPrefix props) accessIdentity")
     (simp_all add: constructor_returns constructor_throws)

lemma conforms_certificate:
  "ICdnConstructProps_conforms props \<Longrightarrow> \<exists>certificate. acmCertificate props = Some certificate"
  by (simp add: ICdnConstructProps_conforms_def)

subsection \<open>Input validation\<close>

text \<open>
  Claim C1 says that an input with \<open>enableHttps = true\<close> and an empty domain-name list
  (or no certificate) is rejected before any resource is created. The constructor has no
  validation: at the input below, which has HTTPS enabled, a certificate and no domain
  name, it returns normally and all five resources are registered.
\<close>

theorem empty_domain_list_not_rejected_counterexample:
  "\<not> isl (CdnConstruct_constructor
       \<lparr> acmCertificate = Some \<lparr> certificate_id = ''cert-123'' \<rparr>,
         domainNames = [],
         enableHttps = True,
         hasBuildCommand = True,
         resourceNamesPrefix = ''site1'',
         websiteS3Bucket =
           \<lparr> bucket_arn = ''arn:aws:s3:::bucket-abc'',
             bucket_id = ''bucket-abc'',
             bucketRegionalDomainName = ''bucket-abc.s3.eu-west-1.amazonaws.com'' \<rparr> \<rparr>)
   \<and> map fst (emitted (CdnConstruct_constructor
       \<lparr> acmCertificate = Some \<lparr> certificate_id = ''cert-123'' \<rparr>,
         domainNames = [],
         enableHttps = True,
         hasBuildCommand = True,
         resourceNamesPrefix = ''site1'',
         websiteS3Bucket =
           \<lparr> bucket_arn = ''arn:aws:s3:::bucket-abc'',
             bucket_id = ''bucket-abc'',
             bucketRegionalDomainName = ''bucket-abc.s3.eu-west-1.amazonaws.com'' \<rparr> \<rparr>)) =
       [''cloudfront_OAI'', ''cloudfront_OAI_role_policy_document'',
          ''cloudfront_s3_bucket_policy'', ''cloudfront_s3_bucket_public_access_block'',
          ''cloudfront_distribution'']"
  by (simp add: CdnConstruct_constructor_def distributionConfig_def viewerCertificateBlock_def
      new_def Let_def)

text \<open>
  Claim C1 as amended: for every input with \<open>enableHttps = true\<close>, an empty domain-name
  list and a certificate (which the interface requires), the constructor returns
  normally. The children of the construct are then exactly five, in this order: the
  access identity, the policy document built for this input and this identity, the bucket
  policy that attaches the document to the input's bucket, the public access block and
  the distribution the construct exposes, whose alias list is present and empty.
\<close>

theorem empty_domain_list_is_accepted:
  "enableHttps props \<Longrightarrow> domainNames props = [] \<Longrightarrow>
   acmCertificate props = Some certificate \<Longrightarrow>
   \<exists>construct.
     CdnConstruct_constructor props = Inr construct
     \<and> children construct =
         [accessIdentity,
          (''cloudfront_OAI_role_policy_document'',
           DataAwsIamPolicyDocument (buildRolePolicyDocument props accessIdentity)),
          (''cloudfront_s3_bucket_policy'',
           S3BucketPolicy
             \<lparr> policy_bucket = bucket_id (websiteS3Bucket props),
               policy = Attribute ''cloudfront_OAI_role_policy_document'' ''json'' \<rparr>),
          (''cloudfront_s3_bucket_public_access_block'',
           S3BucketPublicAccessBlock (publicAccessBlock props)),
          (''cloudfront_distribution'',
           CloudfrontDistribution (cloudfrontDistribution construct))]
     \<and> aliases (cloudfrontDistribution construct) = Some []"
  by (simp add: constructor_returns
      [OF distributionConfig_returns [OF viewerCertificateBlock_present]])

theorem empty_domain_list_is_accepted_witness:
  "\<exists>construct.
     CdnConstruct_constructor
       \<lparr> acmCertificate = Some \<lparr> certificate_id = ''cert-123'' \<rparr>,
         domainNames = [],
         enableHttps = True,
         hasBuildCommand = True,
         resourceNamesPrefix = ''site1'',
         websiteS3Bucket =
           \<lparr> bucket_arn = ''arn:aws:s3:::bucket-abc'',
             bucket_id = ''bucket-abc'',
             bucketRegionalDomainName = ''bucket-abc.s3.eu-west-1.amazonaws.com'' \<rparr> \<rparr>
       = Inr construct
     \<and> children construct =
         [accessIdentity,
          (''cloudfront_OAI_role_policy_document'',
           DataAwsIamPolicyDocument (buildRolePolicyDocument 
       \<lparr> acmCertificate = Some \<lparr> certificate_id = ''cert-123'' \<rparr>,
         domainNames = [],
         enableHttps = True,
         hasBuildCommand = True,
         resourceNamesPrefix = ''site1'',
         websiteS3Bucket =
           \<lparr> bucket_arn = ''arn:aws:s3:::bucket-abc'',
             bucket_id = ''bucket-abc'',
             bucketRegionalDomainName = ''bucket-abc.s3.eu-west-1.amazonaws.com'' \<rparr> \<rparr>
             accessIdentity)),
          (''cloudfront_s3_bucket_policy'',
           S3BucketPolicy
             \<lparr> policy_bucket = ''bucket-abc'',
               policy = Attribute ''cloudfront_OAI_role_policy_document'' ''json'' \<rparr>),
          (''cloudfront_s3_bucket_public_access_block'',
           S3BucketPublicAccessBlock (publicAccessBlock 
       \<lparr> acmCertificate = Some \<lparr> certificate_id = ''cert-123'' \<rparr>,
         domainNames = [],
         enableHttps = True,
         hasBuildCommand = True,
         resourceNamesPrefix = ''site1'',
         websiteS3Bucket =
           \<lparr> bucket_arn = ''arn:aws:s3:::bucket-abc'',
             bucket_id = ''bucket-abc'',
             bucketRegionalDomainName = ''bucket-abc.s3.eu-west-1.amazonaws.com'' \<rparr> \<rparr>
            )),
          (''cloudfront_distribution'',
           CloudfrontDistribution (cloudfrontDistribution construct))]
     \<and> aliases (cloudfrontDistribution construct) = Some []"
  using empty_domain_list_is_accepted [of
       "\<lparr> acmCertificate = Some \<lparr> certificate_id = ''cert-123'' \<rparr>,
         domainNames = [],
         enableHttps = True,
         hasBuildCommand = True,
         resourceNamesPrefix = ''site1'',
         websiteS3Bucket =
           \<lparr> bucket_arn = ''arn:aws:s3:::bucket-abc'',
             bucket_id = ''bucket-abc'',
             bucketRegionalDomainName = ''bucket-abc.s3.eu-west-1.amazonaws.com'' \<rparr> \<rparr>"
       "\<lparr> certificate_id = ''cert-123'' \<rparr>"]
  by simp

subsection \<open>The two states of the HTTPS switch\<close>

text \<open>
  Claim C2: for every input with \<open>enableHttps = false\<close> the constructor returns a
  construct whose distribution has no alias list, whatever the domain-name list is, and
  whose viewer certificate is the default certificate of the platform.
\<close>

theorem https_disabled_distribution:
  "\<not> enableHttps props \<Longrightarrow>
   \<exists>construct.
     CdnConstruct_constructor props = Inr construct
     \<and> distributions (children construct) = [cloudfrontDistribution construct]
     \<and> aliases (cloudfrontDistribution construct) = None
     \<and> viewerCertificate (cloudfrontDistribution construct) =
         [\<lparr> acmCertificateArn = None,
            sslSupportMethod = None,
            cloudfrontDefaultCertificate = Some True \<rparr>]"
  by (simp add: constructor_returns
      [OF distributionConfig_returns [OF viewerCertificateBlock_disabled]])

theorem https_disabled_distribution_witness:
  "\<exists>construct.
     CdnConstruct_constructor
       \<lparr> acmCertificate = Some \<lparr> certificate_id = ''cert-123'' \<rparr>,
         domainNames = [''example.com''],
         enableHttps = False,
         hasBuildCommand = False,
         resourceNamesPrefix = ''site2'',
         websiteS3Bucket =
           \<lparr> bucket_arn = ''arn:aws:s3:::bucket-xyz'',
             bucket_id = ''bucket-xyz'',
             bucketRegionalDomainName = ''bucket-xyz.s3.eu-west-1.amazonaws.com'' \<rparr> \<rparr>
       = Inr construct
     \<and> distributions (children construct) = [cloudfrontDistribution construct]
     \<and> aliases (cloudfrontDistribution construct) = None
     \<and> viewerCertificate (cloudfrontDistribution construct) =
         [\<lparr> acmCertificateArn = None,
            sslSupportMethod = None,
            cloudfrontDefaultCertificate = Some True \<rparr>]"
  using https_disabled_distribution [of
       "\<lparr> acmCertificate = Some \<lparr> certificate_id = ''cert-123'' \<rparr>,
         domainNames = [''example.com''],
         enableHttps = False,
         hasBuildCommand = False,
         resourceNamesPrefix = ''site2'',
         websiteS3Bucket =
           \<lparr> bucket_arn = ''arn:aws:s3:::bucket-xyz'',
             bucket_id = ''bucket-xyz'',
             bucketRegionalDomainName = ''bucket-xyz.s3.eu-west-1.amazonaws.com'' \<rparr> \<rparr>"]
  by simp

text \<open>
  Claim C3: for every input with \<open>enableHttps = true\<close>, a non-empty domain-name list and
  a certificate, the constructor returns a construct whose distribution has the input's
  domain-name list as its alias list, unchanged, and whose viewer certificate names the
  certificate's identifier with the support method \<open>sni-only\<close>.
\<close>

theorem https_enabled_distribution:
  "enableHttps props \<Longrightarrow> domainNames props \<noteq> [] \<Longrightarrow>
   acmCertificate props = Some certificate \<Longrightarrow>
   \<exists>construct.
     CdnConstruct_constructor props = Inr construct
     \<and> distributions (children construct) = [cloudfrontDistribution construct]
     \<and> aliases (cloudfrontDistribution construct) = Some (domainNames props)
     \<and> viewerCertificate (cloudfrontDistribution construct) =
         [\<lparr> acmCertificateArn = Some (certificate_id certificate),
            sslSupportMethod = Some ''sni-only'',
            cloudfrontDefaultCertificate = None \<rparr>]"
  by (simp add: constructor_returns
      [OF distributionConfig_returns [OF viewerCertificateBlock_present]])

theorem https_enabled_distribution_witness:
  "\<exists>construct.
     CdnConstruct_constructor
       \<lparr> acmCertificate = Some \<lparr> certificate_id = ''cert-123'' \<rparr>,
         domainNames = [''example.com''],
         enableHttps = True,
         hasBuildCommand = True,
         resourceNamesPrefix = ''site1'',
         websiteS3Bucket =
           \<lparr> bucket_arn = ''arn:aws:s3:::bucket-abc'',
             bucket_id = ''bucket-abc'',
             bucketRegionalDomainName = ''bucket-abc.s3.eu-west-1.amazonaws.com'' \<rparr> \<rparr>
       = Inr construct
     \<and> distributions (children construct) = [cloudfrontDistribution construct]
     \<and> aliases (cloudfrontDistribution construct) = Some [''example.com'']
     \<and> viewerCertificate (cloudfrontDistribution construct) =
         [\<lparr> acmCertificateArn = Some (''cert-123''),
            sslSupportMethod = Some ''sni-only'',
            cloudfrontDefaultCertificate = None \<rparr>]"
  using https_enabled_distribution [of
       "\<lparr> acmCertificate = Some \<lparr> certificate_id = ''cert-123'' \<rparr>,
         domainNames = [''example.com''],
         enableHttps = True,
         hasBuildCommand = True,
         resourceNamesPrefix = ''site1'',
         websiteS3Bucket =
           \<lparr> bucket_arn = ''arn:aws:s3:::bucket-abc'',
             bucket_id = ''bucket-abc'',
             bucketRegionalDomainName = ''bucket-abc.s3.eu-west-1.amazonaws.com'' \<rparr> \<rparr>"
       "\<lparr> certificate_id = ''cert-123'' \<rparr>"]
  by simp

subsection \<open>Error routing\<close>

text \<open>
  Claim C4: for every input of the interface's type the constructor returns a construct
  whose distribution has exactly one custom error response, for the origin's error code
  403: with \<open>hasBuildCommand = true\<close> it answers with code 200 and the page
  \<open>/index.html\<close>, with \<open>hasBuildCommand = false\<close> with code 403 and the page
  \<open>/error.html\<close>.
\<close>

theorem custom_error_response_rule:
  "ICdnConstructProps_conforms props \<Longrightarrow>
   \<exists>construct.
     CdnConstruct_constructor props = Inr construct
     \<and> distributions (children construct) = [cloudfrontDistribution construct]
     \<and> customErrorResponse (cloudfrontDistribution construct) =
         [\<lparr> errorCode = 403,
            responseCode = (if hasBuildCommand props then 200 else 403),
            responsePagePath = (if hasBuildCommand props then ''/index.html'' else ''/error.html'') \<rparr>]"
proof -
  assume "ICdnConstructProps_conforms props"
  then obtain certificate where "acmCertificate props = Some certificate"
    using conforms_certificate by blast
  from constructor_returns
    [OF distributionConfig_returns [OF viewerCertificateBlock_present [OF this]]]
  show ?thesis by simp
qed

theorem custom_error_response_rule_witness:
  "(\<exists>construct.
     CdnConstruct_constructor
       \<lparr> acmCertificate = Some \<lparr> certificate_id = ''cert-123'' \<rparr>,
         domainNames = [''example.com''],
         enableHttps = True,
         hasBuildCommand = True,
         resourceNamesPrefix = ''site1'',
         websiteS3Bucket =
           \<lparr> bucket_arn = ''arn:aws:s3:::bucket-abc'',
             bucket_id = ''bucket-abc'',
             bucketRegionalDomainName = ''bucket-abc.s3.eu-west-1.amazonaws.com'' \<rparr> \<rparr>
       = Inr construct
     \<and> distributions (children construct) = [cloudfrontDistribution construct]
     \<and> customErrorResponse (cloudfrontDistribution construct) =
         [\<lparr> errorCode = 403,
            responseCode = 200,
            responsePagePath = ''/index.html'' \<rparr>])
   \<and> (\<exists>construct.
     CdnConstruct_constructor
       \<lparr> acmCertificate = Some \<lparr> certificate_id = ''cert-123'' \<rparr>,
         domainNames = [''example.com''],
         enableHttps = True,
         hasBuildCommand = False,
         resourceNamesPrefix = ''site1'',
         websiteS3Bucket =
           \<lparr> bucket_arn = ''arn:aws:s3:::bucket-abc'',
             bucket_id = ''bucket-abc'',
             bucketRegionalDomainName = ''bucket-abc.s3.eu-west-1.amazonaws.com'' \<rparr> \<rparr>
       = Inr construct
     \<and> distributions (children construct) = [cloudfrontDistribution construct]
     \<and> customErrorResponse (cloudfrontDistribution construct) =
         [\<lparr> errorCode = 403,
            responseCode = 403,
            responsePagePath = ''/error.html'' \<rparr>])"
  using custom_error_response_rule [of
       "\<lparr> acmCertificate = Some \<lparr> certificate_id = ''cert-123'' \<rparr>,
         domainNames = [''example.com''],
         enableHttps = True,
         hasBuildCommand = True,
         resourceNamesPrefix = ''site1'',
         websiteS3Bucket =
           \<lparr> bucket_arn = ''arn:aws:s3:::bucket-abc'',
             bucket_id = ''bucket-abc'',
             bucketRegionalDomainName = ''bucket-abc.s3.eu-west-1.amazonaws.com'' \<rparr> \<rparr>"]
    custom_error_response_rule [of
       "\<lparr> acmCertificate = Some \<lparr> certificate_id = ''cert-123'' \<rparr>,
         domainNames = [''example.com''],
         enableHttps = True,
         hasBuildCommand = False,
         resourceNamesPrefix = ''site1'',
         websiteS3Bucket =
           \<lparr> bucket_arn = ''arn:aws:s3:::bucket-abc'',
             bucket_id = ''bucket-abc'',
             bucketRegionalDomainName = ''bucket-abc.s3.eu-west-1.amazonaws.com'' \<rparr> \<rparr>"]
  by (simp add: ICdnConstructProps_conforms_def)

subsection \<open>The trust policy and the lockdown\<close>

text \<open>
  Claim C5: for every input, exactly one access identity and exactly one policy document
  are registered, whether or not the constructor goes on to return. The document has one
  statement, with effect \<open>Allow\<close>, the five read actions, the bucket's ARN and the
  bucket's ARN followed by \<open>/*\<close> as resources, and one principal of type \<open>AWS\<close> whose
  only identifier is the \<open>iamArn\<close> of that access identity.
\<close>

theorem trust_policy_document:
  "accessIdentities (emitted (CdnConstruct_constructor props)) = [accessIdentity]
   \<and> policyDocuments (emitted (CdnConstruct_constructor props)) =
       [\<lparr> version = ''2012-10-17'',
          statement = [
            \<lparr> effect = ''Allow'',
              actions = [
                ''s3:GetObject'',
                ''s3:GetObjectVersion'',
                ''s3:ListBucket'',
                ''s3:GetBucketAcl'',
                ''s3:GetBucketLocation''],
              resources = [bucket_arn (websiteS3Bucket props), bucket_arn (websiteS3Bucket props) @ ''/*''],
              principals = [
                \<lparr> principal_type = ''AWS'',
                  identifiers = [iamArn accessIdentity] \<rparr>] \<rparr>] \<rparr>]"
  by (simp add: emitted_accessIdentities emitted_policyDocuments buildRolePolicyDocument_def
      Token_asString_def)

text \<open>
  Claim C6: for every input, exactly one public access block is registered, for the
  input's bucket; it blocks public ACLs, blocks public policies and ignores public ACLs,
  and it does not restrict public buckets. No member of the input reaches the four flags.
\<close>

theorem public_access_lockdown:
  "accessBlocks (emitted (CdnConstruct_constructor props)) =
     [\<lparr> access_block_bucket = bucket_id (websiteS3Bucket props),
        blockPublicAcls = True,
        blockPublicPolicy = True,
        ignorePublicAcls = True,
        restrictPublicBuckets = False \<rparr>]"
  by (simp add: emitted_accessBlocks publicAccessBlock_def Token_asString_def)

subsection \<open>The default cache behaviour\<close>

text \<open>
  Claim C7: for every input of the interface's type, with HTTPS enabled or not, the
  distribution has exactly one default cache behaviour: the seven methods DELETE, GET,
  HEAD, OPTIONS, PATCH, POST and PUT are allowed, GET and HEAD are cached, the viewer
  protocol policy is \<open>redirect-to-https\<close>, query strings are not forwarded and the
  cookie forwarding is \<open>none\<close>. Only the target origin id comes from the input.
\<close>

theorem default_cache_behavior_fixed:
  "ICdnConstructProps_conforms props \<Longrightarrow>
   \<exists>construct.
     CdnConstruct_constructor props = Inr construct
     \<and> distributions (children construct) = [cloudfrontDistribution construct]
     \<and> defaultCacheBehavior (cloudfrontDistribution construct) =
         [\<lparr> targetOriginId = resourceNamesPrefix props,
            allowedMethods =
              [''DELETE'', ''GET'', ''HEAD'', ''OPTIONS'', ''PATCH'', ''POST'', ''PUT''],
            cachedMethods = [''GET'', ''HEAD''],
            viewerProtocolPolicy = ''redirect-to-https'',
            forwardedValues = [
              \<lparr> queryString = False,
                cookies = [\<lparr> forward = ''none'' \<rparr>] \<rparr>] \<rparr>]"
proof -
  assume "ICdnConstructProps_conforms props"
  then obtain certificate where "acmCertificate props = Some certificate"
    using conforms_certificate by blast
  from constructor_returns
    [OF distributionConfig_returns [OF viewerCertificateBlock_present [OF this]]]
  show ?thesis by simp
qed

theorem default_cache_behavior_fixed_witness:
  "(\<exists>construct.
     CdnConstruct_constructor
       \<lparr> acmCertificate = Some \<lparr> certificate_id = ''cert-123'' \<rparr>,
         domainNames = [''example.com''],
         enableHttps = False,
         hasBuildCommand = False,
         resourceNamesPrefix = ''site2'',
         websiteS3Bucket =
           \<lparr> bucket_arn = ''arn:aws:s3:::bucket-xyz'',
             bucket_id = ''bucket-xyz'',
             bucketRegionalDomainName = ''bucket-xyz.s3.eu-west-1.amazonaws.com'' \<rparr> \<rparr>
       = Inr construct
     \<and> distributions (children construct) = [cloudfrontDistribution construct]
     \<and> defaultCacheBehavior (cloudfrontDistribution construct) =
         [\<lparr> targetOriginId = ''site2'',
            allowedMethods =
              [''DELETE'', ''GET'', ''HEAD'', ''OPTIONS'', ''PATCH'', ''POST'', ''PUT''],
            cachedMethods = [''GET'', ''HEAD''],
            viewerProtocolPolicy = ''redirect-to-https'',
            forwardedValues = [
              \<lparr> queryString = False,
                cookies = [\<lparr> forward = ''none'' \<rparr>] \<rparr>] \<rparr>])
   \<and> (\<exists>construct.
     CdnConstruct_constructor
       \<lparr> acmCertificate = Some \<lparr> certificate_id = ''cert-123'' \<rparr>,
         domainNames = [''example.com''],
         enableHttps = True,
         hasBuildCommand = True,
         resourceNamesPrefix = ''site1'',
         websiteS3Bucket =
           \<lparr> bucket_arn = ''arn:aws:s3:::bucket-abc'',
             bucket_id = ''bucket-abc'',
             bucketRegionalDomainName = ''bucket-abc.s3.eu-west-1.amazonaws.com'' \<rparr> \<rparr>
       = Inr construct
     \<and> distributions (children construct) = [cloudfrontDistribution construct]
     \<and> defaultCacheBehavior (cloudfrontDistribution construct) =
         [\<lparr> targetOriginId = ''site1'',
            allowedMethods =
              [''DELETE'', ''GET'', ''HEAD'', ''OPTIONS'', ''PATCH'', ''POST'', ''PUT''],
            cachedMethods = [''GET'', ''HEAD''],
            viewerProtocolPolicy = ''redirect-to-https'',
            forwardedValues = [
              \<lparr> queryString = False,
                cookies = [\<lparr> forward = ''none'' \<rparr>] \<rparr>] \<rparr>])"
  using default_cache_behavior_fixed [of
       "\<lparr> acmCertificate = Some \<lparr> certificate_id = ''cert-123'' \<rparr>,
         domainNames = [''example.com''],
         enableHttps = False,
         hasBuildCommand = False,
         resourceNamesPrefix = ''site2'',
         websiteS3Bucket =
           \<lparr> bucket_arn = ''arn:aws:s3:::bucket-xyz'',
             bucket_id = ''bucket-xyz'',
             bucketRegionalDomainName = ''bucket-xyz.s3.eu-west-1.amazonaws.com'' \<rparr> \<rparr>"]
    default_cache_behavior_fixed [of
       "\<lparr> acmCertificate = Some \<lparr> certificate_id = ''cert-123'' \<rparr>,
         domainNames = [''example.com''],
         enableHttps = True,
         hasBuildCommand = True,
         resourceNamesPrefix = ''site1'',
         websiteS3Bucket =
           \<lparr> bucket_arn = ''arn:aws:s3:::bucket-abc'',
             bucket_id = ''bucket-abc'',
             bucketRegionalDomainName = ''bucket-abc.s3.eu-west-1.amazonaws.com'' \<rparr> \<rparr>"]
  by (simp add: ICdnConstructProps_conforms_def)

subsection \<open>The certificate member\<close>



subsection \<open>The bucket's ARN\<close>

text \<open>
  Claim C9 says that the policy builder fails fast when the bucket's ARN is unresolved or
  unknown. The builder never looks at the ARN. At the first input below the ARN is the
  placeholder string of a value that is not resolved yet, at the second it is the empty
  string; both times the constructor returns normally and the policy document is
  registered, with the placeholder, or nothing, where the ARN goes.
\<close>

theorem unresolved_arn_not_rejected_counterexample:
  "\<not> isl (CdnConstruct_constructor
       \<lparr> acmCertificate = Some \<lparr> certificate_id = ''cert-123'' \<rparr>,
         domainNames = [''example.com''],
         enableHttps = True,
         hasBuildCommand = True,
         resourceNamesPrefix = ''site1'',
         websiteS3Bucket =
           \<lparr> bucket_arn = ''${TfToken[TOKEN.0]}'',
             bucket_id = ''bucket-abc'',
             bucketRegionalDomainName = ''bucket-abc.s3.eu-west-1.amazonaws.com'' \<rparr> \<rparr>)
   \<and> policyDocuments (emitted (CdnConstruct_constructor
       \<lparr> acmCertificate = Some \<lparr> certificate_id = ''cert-123'' \<rparr>,
         domainNames = [''example.com''],
         enableHttps = True,
         hasBuildCommand = True,
         resourceNamesPrefix = ''site1'',
         websiteS3Bucket =
           \<lparr> bucket_arn = ''${TfToken[TOKEN.0]}'',
             bucket_id = ''bucket-abc'',
             bucketRegionalDomainName = ''bucket-abc.s3.eu-west-1.amazonaws.com'' \<rparr> \<rparr>)) =
       [\<lparr> version = ''2012-10-17'',
          statement = [
            \<lparr> effect = ''Allow'',
              actions = [
                ''s3:GetObject'',
                ''s3:GetObjectVersion'',
                ''s3:ListBucket'',
                ''s3:GetBucketAcl'',
                ''s3:GetBucketLocation''],
              resources = [''${TfToken[TOKEN.0]}'', ''${TfToken[TOKEN.0]}/*''],
              principals = [
                \<lparr> principal_type = ''AWS'',
                  identifiers = [iamArn accessIdentity] \<rparr>] \<rparr>] \<rparr>]
   \<and> \<not> isl (CdnConstruct_constructor
       \<lparr> acmCertificate = Some \<lparr> certificate_id = ''cert-123'' \<rparr>,
         domainNames = [''example.com''],
         enableHttps = True,
         hasBuildCommand = True,
         resourceNamesPrefix = ''site1'',
         websiteS3Bucket =
           \<lparr> bucket_arn = '''',
             bucket_id = ''bucket-abc'',
             bucketRegionalDomainName = ''bucket-abc.s3.eu-west-1.amazonaws.com'' \<rparr> \<rparr>)
   \<and> policyDocuments (emitted (CdnConstruct_constructor
       \<lparr> acmCertificate = Some \<lparr> certificate_id = ''cert-123'' \<rparr>,
         domainNames = [''example.com''],
         enableHttps = True,
         hasBuildCommand = True,
         resourceNamesPrefix = ''site1'',
         websiteS3Bucket =
           \<lparr> bucket_arn = '''',
             bucket_id = ''bucket-abc'',
             bucketRegionalDomainName = ''bucket-abc.s3.eu-west-1.amazonaws.com'' \<rparr> \<rparr>)) =
       [\<lparr> version = ''2012-10-17'',
          statement = [
            \<lparr> effect = ''Allow'',
              actions = [
                ''s3:GetObject'',
                ''s3:GetObjectVersion'',
                ''s3:ListBucket'',
                ''s3:GetBucketAcl'',
                ''s3:GetBucketLocation''],
              resources = ['''', ''/*''],
              principals = [
                \<lparr> principal_type = ''AWS'',
                  identifiers = [iamArn accessIdentity] \<rparr>] \<rparr>] \<rparr>]"
  by (simp add: CdnConstruct_constructor_def distributionConfig_def viewerCertificateBlock_def
      buildRolePolicyDocument_def Token_asString_def new_def Let_def)

text \<open>
  Claim C9 as amended: the policy builder has no failure. For every input exactly one
  policy document is registered; it has one statement, and the statement's resource list
  has exactly the two entries built from the bucket's ARN as it is given, the ARN and the
  ARN followed by \<open>/*\<close>. The list is never empty.
\<close>

theorem trust_policy_resources_unchecked:
  "\<exists>document rule.
     policyDocuments (emitted (CdnConstruct_constructor props)) = [document]
     \<and> statement document = [rule]
     \<and> resources rule =
         [bucket_arn (websiteS3Bucket props), bucket_arn (websiteS3Bucket props) @ ''/*'']
     \<and> resources rule \<noteq> []"
  by (simp add: emitted_policyDocuments buildRolePolicyDocument_def Token_asString_def)

subsection \<open>Toggling HTTPS\<close>

text \<open>
  Claim C10: take two inputs of the interface's type that agree on \<open>hasBuildCommand\<close>,
  \<open>resourceNamesPrefix\<close> and \<open>websiteS3Bucket\<close>, and may differ in \<open>enableHttps\<close>,
  \<open>domainNames\<close> and \<open>acmCertificate\<close>. Both constructions return. The two
  distributions are equal once the alias list and the viewer certificate of one are put
  into the other; in particular they have the same origin, default cache behaviour,
  custom error response, default root object and restrictions. The four resources
  created before the distribution are the same.
\<close>

theorem https_toggle_frame:
  "ICdnConstructProps_conforms p \<Longrightarrow> ICdnConstructProps_conforms q \<Longrightarrow>
   hasBuildCommand q = hasBuildCommand p \<Longrightarrow>
   resourceNamesPrefix q = resourceNamesPrefix p \<Longrightarrow>
   websiteS3Bucket q = websiteS3Bucket p \<Longrightarrow>
   \<exists>c d.
     CdnConstruct_constructor p = Inr c
     \<and> CdnConstruct_constructor q = Inr d
     \<and> cloudfrontDistribution d =
         (cloudfrontDistribution c)
           \<lparr> aliases := aliases (cloudfrontDistribution d),
             viewerCertificate := viewerCertificate (cloudfrontDistribution d) \<rparr>
     \<and> origin (cloudfrontDistribution d) = origin (cloudfrontDistribution c)
     \<and> defaultCacheBehavior (cloudfrontDistribution d) =
         defaultCacheBehavior (cloudfrontDistribution c)
     \<and> customErrorResponse (cloudfrontDistribution d) =
         customErrorResponse (cloudfrontDistribution c)
     \<and> defaultRootObject (cloudfrontDistribution d) =
         defaultRootObject (cloudfrontDistribution c)
     \<and> restrictions (cloudfrontDistribution d) = restrictions (cloudfrontDistribution c)
     \<and> butlast (children d) = butlast (children c)"
proof -
  assume p: "ICdnConstructProps_conforms p" and q: "ICdnConstructProps_conforms q"
    and same: "hasBuildCommand q = hasBuildCommand p"
      "resourceNamesPrefix q = resourceNamesPrefix p"
      "websiteS3Bucket q = websiteS3Bucket p"
  from p obtain cp where cp: "acmCertificate p = Some cp"
    using conforms_certificate by blast
  from q obtain cq where cq: "acmCertificate q = Some cq"
    using conforms_certificate by blast
  from constructor_returns
         [OF distributionConfig_returns [OF viewerCertificateBlock_present [OF cp]]]
       constructor_returns
         [OF distributionConfig_returns [OF viewerCertificateBlock_present [OF cq]]]
       same
  show ?thesis
    by (simp add: buildRolePolicyDocument_def publicAccessBlock_def)
qed

theorem https_toggle_frame_witness:
  "\<exists>c d.
     CdnConstruct_constructor
       \<lparr> acmCertificate = Some \<lparr> certificate_id = ''cert-123'' \<rparr>,
         domainNames = [''example.com''],
         enableHttps = True,
         hasBuildCommand = True,
         resourceNamesPrefix = ''site1'',
         websiteS3Bucket =
           \<lparr> bucket_arn = ''arn:aws:s3:::bucket-abc'',
             bucket_id = ''bucket-abc'',
             bucketRegionalDomainName = ''bucket-abc.s3.eu-west-1.amazonaws.com'' \<rparr> \<rparr>
       = Inr c
     \<and> CdnConstruct_constructor
       \<lparr> acmCertificate = Some \<lparr> certificate_id = ''cert-456'' \<rparr>,
         domainNames = [],
         enableHttps = False,
         hasBuildCommand = True,
         resourceNamesPrefix = ''site1'',
         websiteS3Bucket =
           \<lparr> bucket_arn = ''arn:aws:s3:::bucket-abc'',
             bucket_id = ''bucket-abc'',
             bucketRegionalDomainName = ''bucket-abc.s3.eu-west-1.amazonaws.com'' \<rparr> \<rparr>
       = Inr d
     \<and> cloudfrontDistribution d =
         (cloudfrontDistribution c)
           \<lparr> aliases := aliases (cloudfrontDistribution d),
             viewerCertificate := viewerCertificate (cloudfrontDistribution d) \<rparr>
     \<and> origin (cloudfrontDistribution d) = origin (cloudfrontDistribution c)
     \<and> defaultCacheBehavior (cloudfrontDistribution d) =
         defaultCacheBehavior (cloudfrontDistribution c)
     \<and> customErrorResponse (cloudfrontDistribution d) =
         customErrorResponse (cloudfrontDistribution c)
     \<and> defaultRootObject (cloudfrontDistribution d) =
         defaultRootObject (cloudfrontDistribution c)
     \<and> restrictions (cloudfrontDistribution d) = restrictions (cloudfrontDistribution c)
     \<and> butlast (children d) = butlast (children c)"
  using https_toggle_frame [of
       "\<lparr> acmCertificate = Some \<lparr> certificate_id = ''cert-123'' \<rparr>,
         domainNames = [''example.com''],
         enableHttps = True,
         hasBuildCommand = True,
         resourceNamesPrefix = ''site1'',
         websiteS3Bucket =
           \<lparr> bucket_arn = ''arn:aws:s3:::bucket-abc'',
             bucket_id = ''bucket-abc'',
             bucketRegionalDomainName = ''bucket-abc.s3.eu-west-1.amazonaws.com'' \<rparr> \<rparr>"
       "\<lparr> acmCertificate = Some \<lparr> certificate_id = ''cert-456'' \<rparr>,
         domainNames = [],
         enableHttps = False,
         hasBuildCommand = True,
         resourceNamesPrefix = ''site1'',
         websiteS3Bucket =
           \<lparr> bucket_arn = ''arn:aws:s3:::bucket-abc'',
             bucket_id = ''bucket-abc'',
             bucketRegionalDomainName = ''bucket-abc.s3.eu-west-1.amazonaws.com'' \<rparr> \<rparr>"]
  by (simp add: ICdnConstructProps_conforms_def)

end
